theory Spec2Isabelle
  imports Main "HOL-Library.Word" "HOL-Library.Signed_Division"
begin

unbundle bit_operations_syntax

section \<open>Data model of DrawFrameTask.cpp\<close>

text \<open>
  \<open>int64_t\<close> and \<open>nsecs_t\<close> are 64-bit two's complement values: \<open>+\<close>, \<open>-\<close> and \<open>*\<close> wrap,
  \<open>sint\<close> reads the signed value. Pointers (the render thread, the canvas context, the
  target node, layer updaters) and the \<open>std::function\<close> slots are modelled by their identity
  only: \<open>None\<close> is \<open>nullptr\<close> or an empty function.
\<close>

type_synonym int64 = "64 word"
type_synonym handle = nat

text \<open>The slots of \<open>mFrameInfo\<close> that DrawFrameTask.cpp reads.\<close>

datatype FrameInfoIndex =
  Vsync | IntendedVsync | FrameTimelineVsyncId | FrameDeadline | FrameInterval | FrameStartTime

text \<open>
  The enumerators of \<open>SyncResult\<close> are declared in DrawFrameTask.h, which is not part of the
  sources at hand, so their numeric values are a parameter of the model. The specification
  calls them independent flags with \<open>OK\<close> being 0; \<open>independent_flags\<close> says exactly that.
\<close>

record SyncResult =
  OK :: "32 word"
  UIRedrawRequired :: "32 word"
  LostSurfaceRewardIfFound :: "32 word"
  ContextIsStopped :: "32 word"
  FrameDropped :: "32 word"

definition independent_flags :: "SyncResult \<Rightarrow> bool" where
  "independent_flags fl =
     (OK fl = 0 \<and>
      UIRedrawRequired fl \<noteq> 0 \<and> LostSurfaceRewardIfFound fl \<noteq> 0 \<and>
      ContextIsStopped fl \<noteq> 0 \<and> FrameDropped fl \<noteq> 0 \<and>
      UIRedrawRequired fl AND LostSurfaceRewardIfFound fl = 0 \<and>
      UIRedrawRequired fl AND ContextIsStopped fl = 0 \<and>
      UIRedrawRequired fl AND FrameDropped fl = 0 \<and>
      LostSurfaceRewardIfFound fl AND ContextIsStopped fl = 0 \<and>
      LostSurfaceRewardIfFound fl AND FrameDropped fl = 0 \<and>
      ContextIsStopped fl AND FrameDropped fl = 0)"

text \<open>A bitmask contains a flag when every bit of the flag is set in it.\<close>

definition has_flag :: "32 word \<Rightarrow> 32 word \<Rightarrow> bool" where
  "has_flag r f = (r AND f = f)"

text \<open>The fields of \<open>TreeInfo\<close> that DrawFrameTask.cpp reads or writes.\<close>

record TreeInfo =
  prepareTextures :: bool
  out_canDrawThisFrame :: bool
  out_hasAnimations :: bool
  out_requiresUiRedraw :: bool

text \<open>
  What the collaborators answer during one frame: the three readings of the monotonic
  clock (line 80 in \<open>drawFrame\<close>, line 95 and line 154 in \<open>run\<close>), the results of the
  \<open>CanvasContext\<close> calls, the \<open>TreeInfo\<close> as \<open>prepareTree\<close> leaves it, and the global
  \<open>Properties::targetCpuTimePercentage\<close> as the 64-bit operand of the multiplication.
  \<open>hasSurface\<close> is a query: lines 186 and 187 read it twice with no call in between.
\<close>

record Collaborators =
  systemTime_drawFrame :: int64
  systemTime_run :: int64
  systemTime_report :: int64
  makeCurrent :: bool
  hasSurface :: bool
  prepareTree :: TreeInfo
  getFrameNumber :: int64
  draw :: int64
  targetCpuTimePercentage :: int64

text \<open>The calls that leave the task, in the order they are made.\<close>

datatype event =
    VsyncReceived int64 int64 int64 int64 int64
  | MakeCurrent
  | UnpinImages
  | Apply handle
  | SetContentDrawBounds
  | PrepareTree
  | AddFrameCompleteListener handle
  | UnblockUiThread
  | EnqueueFrameWork handle int64
  | Draw
  | WaitOnFences
  | UpdateTargetWorkDuration int64
  | ReportActualWorkDuration int64

record DrawFrameTask =
  mRenderThread :: "handle option"
  mContext :: "handle option"
  mTargetNode :: "handle option"
  mLayers :: "handle list"
  mSyncResult :: "32 word"
  mSyncQueued :: int64
  mFrameInfo :: "FrameInfoIndex \<Rightarrow> int64"
  mFrameCompleteCallback :: "handle option"
  mFrameCallback :: "handle option"
  mUpdateTargetWorkDuration :: "handle option"
  mReportActualWorkDuration :: "handle option"
  mLastTargetWorkDuration :: int64
  mLastDequeueBufferDuration :: int64

text \<open>
  \<open>LOG_ALWAYS_FATAL_IF\<close> aborts the process with its message. Dereferencing a null
  \<open>mRenderThread\<close> in \<open>postAndWait\<close> does not return either.
\<close>

datatype fatal = LOG_ALWAYS_FATAL string | NullRenderThread

section \<open>Operations\<close>

definition setContext ::
  "handle option \<Rightarrow> handle option \<Rightarrow> handle option \<Rightarrow> DrawFrameTask \<Rightarrow> DrawFrameTask" where
  "setContext thread context targetNode t =
     t\<lparr>mRenderThread := thread, mContext := context, mTargetNode := targetNode\<rparr>"

definition setHintSessionCallbacks ::
  "handle option \<Rightarrow> handle option \<Rightarrow> DrawFrameTask \<Rightarrow> DrawFrameTask" where
  "setHintSessionCallbacks updateTargetWorkDuration reportActualWorkDuration t =
     t\<lparr>mUpdateTargetWorkDuration := updateTargetWorkDuration,
       mReportActualWorkDuration := reportActualWorkDuration\<rparr>"

text \<open>
  The loop shared by \<open>pushLayerUpdate\<close> and \<open>removeLayerUpdate\<close>:
  \<open>for (size_t i = 0; i < mLayers.size(); i++) if (mLayers[i].get() == layer) ...\<close>;
  the result is the index at which the body fires, if it does.
\<close>

function find_layer :: "nat \<Rightarrow> handle list \<Rightarrow> handle \<Rightarrow> nat option" where
  "find_layer i layers layer =
     (if i < length layers
      then (if layers ! i = layer then Some i else find_layer (Suc i) layers layer)
      else None)"
  by pat_completeness auto
termination
  by (relation "measure (\<lambda>(i, layers, layer). length layers - i)") auto

declare find_layer.simps [simp del]

text \<open>\<open>mLayers.erase(mLayers.begin() + i)\<close>\<close>

definition erase :: "handle list \<Rightarrow> nat \<Rightarrow> handle list" where
  "erase layers i = take i layers @ drop (Suc i) layers"

definition pushLayerUpdate :: "handle \<Rightarrow> DrawFrameTask \<Rightarrow> fatal + DrawFrameTask" where
  "pushLayerUpdate layer t =
     (if mContext t = None
      then Inl (LOG_ALWAYS_FATAL
                  ''Lifecycle violation, there's no context to pushLayerUpdate with!'')
      else (case find_layer 0 (mLayers t) layer of
              Some i \<Rightarrow> Inr t
            | None \<Rightarrow> Inr (t\<lparr>mLayers := mLayers t @ [layer]\<rparr>)))"

definition removeLayerUpdate :: "handle \<Rightarrow> DrawFrameTask \<Rightarrow> fatal + DrawFrameTask" where
  "removeLayerUpdate layer t =
     (case find_layer 0 (mLayers t) layer of
        Some i \<Rightarrow> Inr (t\<lparr>mLayers := erase (mLayers t) i\<rparr>)
      | None \<Rightarrow> Inr t)"

text \<open>
  \<open>syncFrameState\<close> returns \<open>info.prepareTextures\<close>; the \<open>TreeInfo\<close> it was handed by
  reference, the task and the calls it made are returned beside it.
\<close>

definition syncFrameState ::
  "SyncResult \<Rightarrow> Collaborators \<Rightarrow> DrawFrameTask \<Rightarrow> bool \<times> TreeInfo \<times> DrawFrameTask \<times> event list" where
  "syncFrameState fl c t =
     (let vsync = mFrameInfo t Vsync;
          intendedVsync = mFrameInfo t IntendedVsync;
          vsyncId = mFrameInfo t FrameTimelineVsyncId;
          frameDeadline = mFrameInfo t FrameDeadline;
          frameInterval = mFrameInfo t FrameInterval;
          canDraw = makeCurrent c;
          calls = [VsyncReceived vsync intendedVsync vsyncId frameDeadline frameInterval,
                   MakeCurrent, UnpinImages]
                  @ map Apply (mLayers t) @ [SetContentDrawBounds, PrepareTree];
          t1 = t\<lparr>mLayers := []\<rparr>;
          info = prepareTree c;
          (t2, info2) =
            (if \<not> hasSurface c \<or> \<not> canDraw
             then ((if \<not> hasSurface c
                    then t1\<lparr>mSyncResult := mSyncResult t1 OR LostSurfaceRewardIfFound fl\<rparr>
                    else t1\<lparr>mSyncResult := mSyncResult t1 OR ContextIsStopped fl\<rparr>),
                   info\<lparr>out_canDrawThisFrame := False\<rparr>)
             else (t1, info));
          t3 = (if out_hasAnimations info2
                then (if out_requiresUiRedraw info2
                      then t2\<lparr>mSyncResult := mSyncResult t2 OR UIRedrawRequired fl\<rparr>
                      else t2)
                else t2);
          t4 = (if \<not> out_canDrawThisFrame info2
                then t3\<lparr>mSyncResult := mSyncResult t3 OR FrameDropped fl\<rparr>
                else t3)
      in (prepareTextures info2, info2, t4, calls))"

text \<open>
  Signed 64-bit division truncates towards zero (\<open>sdiv\<close> on \<open>int\<close>); \<open>std::min\<close> returns its
  second argument only when that is smaller in the signed order. Where a subtraction or the
  multiplication leaves the range of \<open>int64_t\<close>, which C++ leaves undefined, the model
  wraps around; the comparisons are the signed ones.
\<close>

definition sdiv64 :: "int64 \<Rightarrow> int64 \<Rightarrow> int64" where
  "sdiv64 a b = word_of_int (sint a sdiv sint b)"

definition std_min :: "int64 \<Rightarrow> int64 \<Rightarrow> int64" where
  "std_min a b = (if sint b < sint a then b else a)"

definition kSanityCheckLowerBound :: int64 where
  "kSanityCheckLowerBound = 100000"

definition kSanityCheckUpperBound :: int64 where
  "kSanityCheckUpperBound = 10000000000"

text \<open>
  Lines 143 to 161 of \<open>run\<close>, the hint-session block, with the locals of \<open>run\<close> it reads as
  arguments.
\<close>

definition reportWorkDurations ::
  "Collaborators \<Rightarrow> int64 \<Rightarrow> int64 \<Rightarrow> int64 \<Rightarrow> int64 \<Rightarrow> int64 \<Rightarrow> DrawFrameTask
     \<Rightarrow> DrawFrameTask \<times> event list" where
  "reportWorkDurations c frameDeadline intendedVsync frameStartTime syncDelayDuration
       dequeueBufferDuration t =
     (if mUpdateTargetWorkDuration t \<noteq> None \<and> mReportActualWorkDuration t \<noteq> None
      then
        (let targetWorkDuration0 = frameDeadline - intendedVsync;
             targetWorkDuration = sdiv64 (targetWorkDuration0 * targetCpuTimePercentage c) 100;
             (t1, ev1) =
               (if sint kSanityCheckLowerBound < sint targetWorkDuration \<and>
                   sint targetWorkDuration < sint kSanityCheckUpperBound \<and>
                   targetWorkDuration \<noteq> mLastTargetWorkDuration t
                then (t\<lparr>mLastTargetWorkDuration := targetWorkDuration\<rparr>,
                      [UpdateTargetWorkDuration targetWorkDuration])
                else (t, []));
             frameDuration = systemTime_report c - frameStartTime;
             actualDuration = frameDuration
                              - std_min syncDelayDuration (mLastDequeueBufferDuration t1)
                              - dequeueBufferDuration;
             ev2 = (if sint kSanityCheckLowerBound < sint actualDuration \<and>
                       sint actualDuration < sint kSanityCheckUpperBound
                    then [ReportActualWorkDuration actualDuration]
                    else [])
         in (t1, ev1 @ ev2))
      else (t, []))"

definition run :: "SyncResult \<Rightarrow> Collaborators \<Rightarrow> DrawFrameTask \<Rightarrow> DrawFrameTask \<times> event list" where
  "run fl c t =
     (let syncDelayDuration = systemTime_run c - mSyncQueued t;
          (canUnblockUiThread, info, t1, ev_sync) = syncFrameState fl c t;
          canDrawThisFrame = out_canDrawThisFrame info;
          (t2, ev_listener) =
            (case mFrameCompleteCallback t1 of
               Some cb \<Rightarrow> (t1\<lparr>mFrameCompleteCallback := None\<rparr>, [AddFrameCompleteListener cb])
             | None \<Rightarrow> (t1, []));
          callback = mFrameCallback t2;
          t3 = t2\<lparr>mFrameCallback := None\<rparr>;
          intendedVsync = mFrameInfo t3 IntendedVsync;
          frameDeadline = mFrameInfo t3 FrameDeadline;
          frameStartTime = mFrameInfo t3 FrameStartTime;
          ev_early = (if canUnblockUiThread then [UnblockUiThread] else []);
          ev_work = (case callback of
                       Some cb \<Rightarrow> [EnqueueFrameWork cb (getFrameNumber c)]
                     | None \<Rightarrow> []);
          (dequeueBufferDuration, ev_draw) =
            (if canDrawThisFrame then (draw c, [Draw]) else (0, [WaitOnFences]));
          ev_late = (if \<not> canUnblockUiThread then [UnblockUiThread] else []);
          (t4, ev_hint) =
            reportWorkDurations c frameDeadline intendedVsync frameStartTime syncDelayDuration
              dequeueBufferDuration t3;
          t5 = t4\<lparr>mLastDequeueBufferDuration := dequeueBufferDuration\<rparr>
      in (t5, ev_sync @ ev_listener @ ev_early @ ev_work @ ev_draw @ ev_late @ ev_hint))"

text \<open>
  \<open>postAndWait\<close> posts \<open>run\<close> to the render thread's queue and blocks until the signal; the
  model runs \<open>run\<close> to its end in place.
\<close>

definition postAndWait ::
  "SyncResult \<Rightarrow> Collaborators \<Rightarrow> DrawFrameTask \<Rightarrow> fatal + DrawFrameTask \<times> event list" where
  "postAndWait fl c t =
     (if mRenderThread t = None then Inl NullRenderThread else Inr (run fl c t))"

definition drawFrame ::
  "SyncResult \<Rightarrow> Collaborators \<Rightarrow> DrawFrameTask
     \<Rightarrow> fatal + 32 word \<times> DrawFrameTask \<times> event list" where
  "drawFrame fl c t =
     (if mContext t = None
      then Inl (LOG_ALWAYS_FATAL ''Cannot drawFrame with no CanvasContext!'')
      else (let t1 = t\<lparr>mSyncResult := OK fl\<rparr>;
                t2 = t1\<lparr>mSyncQueued := systemTime_drawFrame c\<rparr>
            in (case postAndWait fl c t2 of
                  Inl e \<Rightarrow> Inl e
                | Inr (t3, calls) \<Rightarrow> Inr (mSyncResult t3, t3, calls))))"

text \<open>
  The constructor sets \<open>mRenderThread\<close>, \<open>mContext\<close> and \<open>mSyncResult\<close>; the vector
  and the four \<open>std::function\<close> members are default-constructed, hence empty. The other
  members get what the header gives them, here whatever \<open>raw\<close> holds.
\<close>

definition DrawFrameTask_ctor :: "SyncResult \<Rightarrow> DrawFrameTask \<Rightarrow> DrawFrameTask" where
  "DrawFrameTask_ctor fl raw =
     raw\<lparr>mRenderThread := None, mContext := None, mSyncResult := OK fl, mLayers := [],
         mFrameCompleteCallback := None, mFrameCallback := None,
         mUpdateTargetWorkDuration := None, mReportActualWorkDuration := None\<rparr>"

section \<open>Vocabulary of the properties\<close>

text \<open>A producer's sequence of queue calls; it ends at the first call that aborts.\<close>

datatype layer_op = PushLayerUpdate handle | RemoveLayerUpdate handle

fun apply_layer_op :: "layer_op \<Rightarrow> DrawFrameTask \<Rightarrow> fatal + DrawFrameTask" where
  "apply_layer_op (PushLayerUpdate layer) t = pushLayerUpdate layer t"
| "apply_layer_op (RemoveLayerUpdate layer) t = removeLayerUpdate layer t"

fun apply_layer_ops :: "layer_op list \<Rightarrow> DrawFrameTask \<Rightarrow> fatal + DrawFrameTask" where
  "apply_layer_ops [] t = Inr t"
| "apply_layer_ops (x # xs) t =
     (case apply_layer_op x t of Inl e \<Rightarrow> Inl e | Inr t' \<Rightarrow> apply_layer_ops xs t')"

text \<open>
  The calls that release the producer or end the frame's GPU step: projecting a trace on
  them shows on which side of the draw the release happened.
\<close>

definition is_release_or_draw :: "event \<Rightarrow> bool" where
  "is_release_or_draw e = (e = UnblockUiThread \<or> e = Draw \<or> e = WaitOnFences)"

text \<open>
  Concrete inputs for the examples: the flags as the bits 0 to 3, a task wired to a context
  with both hint-session callbacks installed, and a frame whose deadline lies 16.6 ms
  after its intended vsync, at 70 percent CPU time.
\<close>

definition test_flags :: SyncResult where
  "test_flags = \<lparr>OK = 0, UIRedrawRequired = 1, LostSurfaceRewardIfFound = 2,
                  ContextIsStopped = 4, FrameDropped = 8\<rparr>"

definition test_raw :: DrawFrameTask where
  "test_raw = \<lparr>mRenderThread = None, mContext = None, mTargetNode = None, mLayers = [],
                mSyncResult = 0, mSyncQueued = 0, mFrameInfo = (\<lambda>i. 0),
                mFrameCompleteCallback = None, mFrameCallback = None,
                mUpdateTargetWorkDuration = None, mReportActualWorkDuration = None,
                mLastTargetWorkDuration = 0, mLastDequeueBufferDuration = 0\<rparr>"

definition test_task :: DrawFrameTask where
  "test_task =
     (setHintSessionCallbacks (Some 4) (Some 5)
        (setContext (Some 1) (Some 2) (Some 3) (DrawFrameTask_ctor test_flags test_raw)))
     \<lparr>mFrameInfo := (\<lambda>i. if i = FrameDeadline then 16600000 else 0)\<rparr>"

definition test_info :: TreeInfo where
  "test_info = \<lparr>prepareTextures = True, out_canDrawThisFrame = True,
                 out_hasAnimations = False, out_requiresUiRedraw = False\<rparr>"

definition test_frame :: Collaborators where
  "test_frame = \<lparr>systemTime_drawFrame = 1000000, systemTime_run = 1200000,
                  systemTime_report = 9000000, makeCurrent = True, hasSurface = True,
                  prepareTree = test_info, getFrameNumber = 1, draw = 300000,
                  targetCpuTimePercentage = 70\<rparr>"

section \<open>The example inputs, field by field\<close>

lemma test_flags_simps:
  "OK test_flags = 0" "UIRedrawRequired test_flags = 1" "LostSurfaceRewardIfFound test_flags = 2"
  "ContextIsStopped test_flags = 4" "FrameDropped test_flags = 8"
  by (simp_all add: test_flags_def)

lemma test_task_simps:
  "mContext test_task = Some 2" "mRenderThread test_task = Some 1" "mLayers test_task = []"
  "mUpdateTargetWorkDuration test_task = Some 4" "mReportActualWorkDuration test_task = Some 5"
  "mLastTargetWorkDuration test_task = 0" "mLastDequeueBufferDuration test_task = 0"
  "mFrameInfo test_task FrameDeadline = 16600000" "mFrameInfo test_task IntendedVsync = 0"
  "mFrameInfo test_task FrameStartTime = 0" "mSyncQueued test_task = 0"
  "mSyncResult test_task = 0"
  by (simp_all add: test_task_def setHintSessionCallbacks_def setContext_def
        DrawFrameTask_ctor_def test_raw_def test_flags_def)

lemma test_frame_simps:
  "systemTime_drawFrame test_frame = 1000000" "systemTime_run test_frame = 1200000"
  "systemTime_report test_frame = 9000000" "makeCurrent test_frame" "hasSurface test_frame"
  "prepareTextures (prepareTree test_frame)" "out_canDrawThisFrame (prepareTree test_frame)"
  "\<not> out_hasAnimations (prepareTree test_frame)"
  "\<not> out_requiresUiRedraw (prepareTree test_frame)"
  "draw test_frame = 300000" "targetCpuTimePercentage test_frame = 70"
  "getFrameNumber test_frame = 1"
  by (simp_all add: test_frame_def test_info_def)

section \<open>The layer-update queue\<close>

text \<open>The scan finds nothing exactly when the handle is not queued from index \<open>i\<close> on.\<close>

lemma find_layer_None: "find_layer i layers layer = None \<longleftrightarrow> layer \<notin> set (drop i layers)"
proof (induction i layers layer rule: find_layer.induct)
  case (1 i layers layer)
  show ?case
  proof (cases "i < length layers")
    case True
    then have d: "drop i layers = layers ! i # drop (Suc i) layers"
      by (simp add: Cons_nth_drop_Suc)
    show ?thesis
      using True 1 by (subst find_layer.simps) (auto simp: d)
  next
    case False
    then show ?thesis by (subst find_layer.simps) simp
  qed
qed

text \<open>What it finds is the first index at or after \<open>i\<close> that holds the handle.\<close>

lemma find_layer_Some:
  "find_layer i layers layer = Some j \<Longrightarrow>
     i \<le> j \<and> j < length layers \<and> layers ! j = layer \<and>
     layer \<notin> set (take (j - i) (drop i layers))"
proof (induction i layers layer rule: find_layer.induct)
  case (1 i layers layer)
  show ?case
  proof (cases "i < length layers")
    case True
    note lt = this
    show ?thesis
    proof (cases "layers ! i = layer")
      case True
      with lt 1(2) have "j = i" by (subst (asm) find_layer.simps) simp
      with lt True show ?thesis by simp
    next
      case False
      with lt 1(2) have rec: "find_layer (Suc i) layers layer = Some j"
        by (subst (asm) find_layer.simps) simp
      from 1(1) [OF lt False rec]
      have ih: "Suc i \<le> j" "j < length layers" "layers ! j = layer"
        "layer \<notin> set (take (j - Suc i) (drop (Suc i) layers))" by auto
      have d: "drop i layers = layers ! i # drop (Suc i) layers"
        using lt by (simp add: Cons_nth_drop_Suc)
      from ih(1) obtain k where k: "j - i = Suc k" "j - Suc i = k"
        by (metis Suc_diff_Suc Suc_le_lessD)
      show ?thesis using ih False by (simp add: d k)
    qed
  next
    case False
    with 1(2) show ?thesis by (subst (asm) find_layer.simps) simp
  qed
qed

lemma erase_first_match:
  "j < length layers \<Longrightarrow> layers ! j = layer \<Longrightarrow> layer \<notin> set (take j layers) \<Longrightarrow>
     erase layers j = remove1 layer layers"
proof (induction layers arbitrary: j)
  case Nil
  then show ?case by simp
next
  case (Cons x xs)
  show ?case
  proof (cases j)
    case 0
    with Cons.prems show ?thesis by (simp add: erase_def)
  next
    case (Suc k)
    with Cons.prems have "k < length xs" "xs ! k = layer" "layer \<notin> set (take k xs)" "x \<noteq> layer"
      by auto
    with Cons.IH [of k] Suc show ?thesis by (simp add: erase_def)
  qed
qed

lemma find_layer_remove1:
  "find_layer 0 layers layer = Some j \<Longrightarrow> erase layers j = remove1 layer layers"
  using find_layer_Some [of 0 layers layer j] by (simp add: erase_first_match)

lemma find_layer_0_None: "find_layer 0 layers layer = None \<longleftrightarrow> layer \<notin> set layers"
  by (simp add: find_layer_None)

lemma pushLayerUpdate_eq:
  "pushLayerUpdate layer t =
     (if mContext t = None
      then Inl (LOG_ALWAYS_FATAL
                  ''Lifecycle violation, there's no context to pushLayerUpdate with!'')
      else if layer \<in> set (mLayers t) then Inr t
      else Inr (t\<lparr>mLayers := mLayers t @ [layer]\<rparr>))"
proof (cases "find_layer 0 (mLayers t) layer")
  case None
  then have "layer \<notin> set (mLayers t)" by (simp add: find_layer_0_None)
  with None show ?thesis by (simp add: pushLayerUpdate_def)
next
  case (Some j)
  then have "layer \<in> set (mLayers t)"
    using find_layer_0_None [of "mLayers t" layer] by auto
  with Some show ?thesis by (simp add: pushLayerUpdate_def)
qed

lemma removeLayerUpdate_eq:
  "removeLayerUpdate layer t = Inr (t\<lparr>mLayers := remove1 layer (mLayers t)\<rparr>)"
proof (cases "find_layer 0 (mLayers t) layer")
  case None
  then have "layer \<notin> set (mLayers t)" by (simp add: find_layer_0_None)
  then have "remove1 layer (mLayers t) = mLayers t" by (simp add: remove1_idem)
  with None show ?thesis by (simp add: removeLayerUpdate_def)
next
  case (Some j)
  then show ?thesis by (simp add: removeLayerUpdate_def find_layer_remove1)
qed

lemma apply_layer_ops_distinct:
  "distinct (mLayers t) \<Longrightarrow> apply_layer_ops ops t = Inr t' \<Longrightarrow> distinct (mLayers t')"
proof (induction ops arbitrary: t)
  case Nil
  then show ?case by simp
next
  case (Cons x xs)
  show ?case
  proof (cases x)
    case (PushLayerUpdate h)
    with Cons.prems obtain t1 where
      t1: "pushLayerUpdate h t = Inr t1" and rest: "apply_layer_ops xs t1 = Inr t'"
      by (auto split: sum.splits)
    from t1 Cons.prems(1) have "distinct (mLayers t1)"
      by (auto simp: pushLayerUpdate_eq split: if_splits)
    with rest show ?thesis by (rule Cons.IH [rotated])
  next
    case (RemoveLayerUpdate h)
    with Cons.prems obtain t1 where
      t1: "removeLayerUpdate h t = Inr t1" and rest: "apply_layer_ops xs t1 = Inr t'"
      by (auto split: sum.splits)
    from t1 Cons.prems(1) have "distinct (mLayers t1)"
      by (auto simp: removeLayerUpdate_eq)
    with rest show ?thesis by (rule Cons.IH [rotated])
  qed
qed

text \<open>
  Claim C6. Starting from a queue without duplicates (the constructor's empty queue is
  one), every sequence of \<open>pushLayerUpdate\<close> and \<open>removeLayerUpdate\<close> calls that does not
  abort leaves a queue without duplicates. In the state reached, pushing a handle that is
  queued changes nothing; removing a handle erases its first occurrence and nothing else,
  after which the handle is not queued any more; and pushing a handle that is not queued
  twice and removing it once gives the state back, so that from the empty queue the queue
  ends empty.
\<close>

theorem layer_queue_unique:
  assumes "distinct (mLayers t)" and "apply_layer_ops ops t = Inr t'"
  shows "distinct (mLayers t') \<and>
         (mContext t' \<noteq> None \<and> h \<in> set (mLayers t') \<longrightarrow> pushLayerUpdate h t' = Inr t') \<and>
         removeLayerUpdate h t' = Inr (t'\<lparr>mLayers := remove1 h (mLayers t')\<rparr>) \<and>
         h \<notin> set (remove1 h (mLayers t')) \<and>
         (mContext t' \<noteq> None \<and> h \<notin> set (mLayers t') \<longrightarrow>
            apply_layer_ops [PushLayerUpdate h, PushLayerUpdate h, RemoveLayerUpdate h] t'
              = Inr t')"
proof -
  have d: "distinct (mLayers t')"
    using assms by (rule apply_layer_ops_distinct)
  have push: "mContext t' \<noteq> None \<and> h \<in> set (mLayers t') \<longrightarrow> pushLayerUpdate h t' = Inr t'"
    by (simp add: pushLayerUpdate_eq)
  have rem: "removeLayerUpdate h t' = Inr (t'\<lparr>mLayers := remove1 h (mLayers t')\<rparr>)"
    by (rule removeLayerUpdate_eq)
  have gone: "h \<notin> set (remove1 h (mLayers t'))"
    using d by simp
  have seq: "mContext t' \<noteq> None \<and> h \<notin> set (mLayers t') \<longrightarrow>
               apply_layer_ops [PushLayerUpdate h, PushLayerUpdate h, RemoveLayerUpdate h] t'
                 = Inr t'"
    by (auto simp add: pushLayerUpdate_eq removeLayerUpdate_eq remove1_append)
  from d push rem gone seq show ?thesis by blast
qed

theorem layer_queue_unique_witness:
  "distinct (mLayers test_task) \<and> mLayers test_task = [] \<and>
   apply_layer_ops [PushLayerUpdate 7, PushLayerUpdate 7, RemoveLayerUpdate 7] test_task
     = Inr test_task \<and>
   apply_layer_ops [PushLayerUpdate 7, PushLayerUpdate 9, PushLayerUpdate 7] test_task
     = Inr (test_task\<lparr>mLayers := [7, 9]\<rparr>) \<and>
   pushLayerUpdate 9 (test_task\<lparr>mLayers := [7, 9]\<rparr>) = Inr (test_task\<lparr>mLayers := [7, 9]\<rparr>) \<and>
   removeLayerUpdate 7 (test_task\<lparr>mLayers := [7, 9]\<rparr>) = Inr (test_task\<lparr>mLayers := [9]\<rparr>) \<and>
   apply_layer_ops [PushLayerUpdate 3, PushLayerUpdate 3, RemoveLayerUpdate 3]
     (test_task\<lparr>mLayers := [7, 9]\<rparr>) = Inr (test_task\<lparr>mLayers := [7, 9]\<rparr>)"
proof -
  have d: "distinct (mLayers test_task)" by (simp add: test_task_simps)
  have e: "apply_layer_ops [] test_task = Inr test_task" by simp
  have a: "apply_layer_ops [PushLayerUpdate 7, PushLayerUpdate 9, PushLayerUpdate 7] test_task
             = Inr (test_task\<lparr>mLayers := [7, 9]\<rparr>)"
    by (simp add: pushLayerUpdate_eq test_task_simps)
  from layer_queue_unique [OF d e, of 7]
    layer_queue_unique [OF d a, of 9] layer_queue_unique [OF d a, of 7]
    layer_queue_unique [OF d a, of 3] d a
  show ?thesis
    by (simp add: test_task_simps)
qed

section \<open>What syncFrameState returns and leaves behind\<close>

lemma syncFrameState_ret: "fst (syncFrameState fl c t) = prepareTextures (prepareTree c)"
  by (simp add: syncFrameState_def Let_def)

lemma syncFrameState_info:
  "fst (snd (syncFrameState fl c t)) =
     (prepareTree c)\<lparr>out_canDrawThisFrame :=
        out_canDrawThisFrame (prepareTree c) \<and> hasSurface c \<and> makeCurrent c\<rparr>"
  by (simp add: syncFrameState_def Let_def)

lemma syncFrameState_task:
  "fst (snd (snd (syncFrameState fl c t))) =
     t\<lparr>mLayers := [], mSyncResult := mSyncResult (fst (snd (snd (syncFrameState fl c t))))\<rparr>"
  by (simp add: syncFrameState_def Let_def)

lemma syncFrameState_calls:
  "snd (snd (snd (syncFrameState fl c t))) =
     [VsyncReceived (mFrameInfo t Vsync) (mFrameInfo t IntendedVsync)
        (mFrameInfo t FrameTimelineVsyncId) (mFrameInfo t FrameDeadline)
        (mFrameInfo t FrameInterval), MakeCurrent, UnpinImages]
     @ map Apply (mLayers t) @ [SetContentDrawBounds, PrepareTree]"
  by (simp add: syncFrameState_def Let_def)

lemma syncFrameState_mSyncResult:
  "mSyncResult (fst (snd (snd (syncFrameState fl c t)))) =
     (let r1 = (if \<not> hasSurface c then mSyncResult t OR LostSurfaceRewardIfFound fl
                else if \<not> makeCurrent c then mSyncResult t OR ContextIsStopped fl
                else mSyncResult t);
          r2 = (if out_hasAnimations (prepareTree c) \<and> out_requiresUiRedraw (prepareTree c)
                then r1 OR UIRedrawRequired fl else r1)
      in if out_canDrawThisFrame (prepareTree c) \<and> hasSurface c \<and> makeCurrent c
         then r2 else r2 OR FrameDropped fl)"
  by (simp add: syncFrameState_def Let_def)

subsection \<open>Flags in a bitmask\<close>

lemma has_flag_set: "has_flag (r OR f) f"
  by (simp add: has_flag_def bit.conj_disj_distrib2)

lemma has_flag_other: "g AND f = 0 \<Longrightarrow> has_flag (r OR g) f = has_flag r f"
  by (simp add: has_flag_def bit.conj_disj_distrib2)

lemma has_flag_zero: "f \<noteq> 0 \<Longrightarrow> \<not> has_flag 0 f"
  by (auto simp add: has_flag_def)

lemma has_flag_disjoint: "g AND f = 0 \<Longrightarrow> f \<noteq> 0 \<Longrightarrow> \<not> has_flag g f"
  by (auto simp add: has_flag_def)

lemma independent_flags_disjoint:
  assumes "independent_flags fl"
  shows "LostSurfaceRewardIfFound fl AND UIRedrawRequired fl = 0"
    "ContextIsStopped fl AND UIRedrawRequired fl = 0"
    "FrameDropped fl AND UIRedrawRequired fl = 0"
    "ContextIsStopped fl AND LostSurfaceRewardIfFound fl = 0"
    "FrameDropped fl AND LostSurfaceRewardIfFound fl = 0"
    "FrameDropped fl AND ContextIsStopped fl = 0"
    "UIRedrawRequired fl AND LostSurfaceRewardIfFound fl = 0"
    "UIRedrawRequired fl AND ContextIsStopped fl = 0"
    "UIRedrawRequired fl AND FrameDropped fl = 0"
    "LostSurfaceRewardIfFound fl AND ContextIsStopped fl = 0"
    "LostSurfaceRewardIfFound fl AND FrameDropped fl = 0"
    "ContextIsStopped fl AND FrameDropped fl = 0"
  using assms by (simp_all add: independent_flags_def and.commute)

lemma independent_flags_nonzero:
  assumes "independent_flags fl"
  shows "OK fl = 0" "UIRedrawRequired fl \<noteq> 0" "LostSurfaceRewardIfFound fl \<noteq> 0"
    "ContextIsStopped fl \<noteq> 0" "FrameDropped fl \<noteq> 0"
  using assms by (simp_all add: independent_flags_def)

text \<open>
  Claim C2. In a \<open>syncFrameState\<close> pass, when \<open>hasSurface()\<close> is false the bitmask contains
  \<open>LostSurfaceRewardIfFound\<close> afterwards and \<open>ContextIsStopped\<close> is not added (it is in the
  bitmask afterwards only if it was there before, which after the reset in \<open>drawFrame\<close> it
  is not); when \<open>hasSurface()\<close> is true and \<open>makeCurrent()\<close> failed, the same holds with the
  two flags exchanged. In both cases \<open>info.out.canDrawThisFrame\<close> is false afterwards, and
  whenever it is false afterwards the bitmask contains \<open>FrameDropped\<close>.
\<close>

theorem syncFrameState_surface_flags:
  assumes "independent_flags fl"
  shows "(\<not> hasSurface c \<longrightarrow>
            has_flag (mSyncResult (fst (snd (snd (syncFrameState fl c t)))))
              (LostSurfaceRewardIfFound fl) \<and>
            (has_flag (mSyncResult (fst (snd (snd (syncFrameState fl c t)))))
               (ContextIsStopped fl) = has_flag (mSyncResult t) (ContextIsStopped fl)) \<and>
            (mSyncResult t = OK fl \<longrightarrow>
               \<not> has_flag (mSyncResult (fst (snd (snd (syncFrameState fl c t)))))
                   (ContextIsStopped fl)) \<and>
            \<not> out_canDrawThisFrame (fst (snd (syncFrameState fl c t)))) \<and>
         (hasSurface c \<and> \<not> makeCurrent c \<longrightarrow>
            has_flag (mSyncResult (fst (snd (snd (syncFrameState fl c t)))))
              (ContextIsStopped fl) \<and>
            (has_flag (mSyncResult (fst (snd (snd (syncFrameState fl c t)))))
               (LostSurfaceRewardIfFound fl) = has_flag (mSyncResult t) (LostSurfaceRewardIfFound fl)) \<and>
            (mSyncResult t = OK fl \<longrightarrow>
               \<not> has_flag (mSyncResult (fst (snd (snd (syncFrameState fl c t)))))
                   (LostSurfaceRewardIfFound fl)) \<and>
            \<not> out_canDrawThisFrame (fst (snd (syncFrameState fl c t)))) \<and>
         (\<not> out_canDrawThisFrame (fst (snd (syncFrameState fl c t))) \<longrightarrow>
            has_flag (mSyncResult (fst (snd (snd (syncFrameState fl c t))))) (FrameDropped fl))"
  using independent_flags_disjoint [OF assms] independent_flags_nonzero [OF assms]
  by (simp add: syncFrameState_mSyncResult syncFrameState_info Let_def has_flag_set
        has_flag_other has_flag_zero has_flag_disjoint)

theorem syncFrameState_surface_flags_witness:
  "independent_flags test_flags \<and>
   \<not> hasSurface (test_frame\<lparr>hasSurface := False\<rparr>) \<and>
   mSyncResult test_task = OK test_flags \<and>
   has_flag (mSyncResult (fst (snd (snd (syncFrameState test_flags
       (test_frame\<lparr>hasSurface := False\<rparr>) test_task))))) (LostSurfaceRewardIfFound test_flags) \<and>
   \<not> has_flag (mSyncResult (fst (snd (snd (syncFrameState test_flags
       (test_frame\<lparr>hasSurface := False\<rparr>) test_task))))) (ContextIsStopped test_flags) \<and>
   \<not> out_canDrawThisFrame (fst (snd (syncFrameState test_flags
       (test_frame\<lparr>hasSurface := False\<rparr>) test_task))) \<and>
   has_flag (mSyncResult (fst (snd (snd (syncFrameState test_flags
       (test_frame\<lparr>hasSurface := False\<rparr>) test_task))))) (FrameDropped test_flags) \<and>
   hasSurface (test_frame\<lparr>makeCurrent := False\<rparr>) \<and>
   \<not> makeCurrent (test_frame\<lparr>makeCurrent := False\<rparr>) \<and>
   has_flag (mSyncResult (fst (snd (snd (syncFrameState test_flags
       (test_frame\<lparr>makeCurrent := False\<rparr>) test_task))))) (ContextIsStopped test_flags) \<and>
   \<not> has_flag (mSyncResult (fst (snd (snd (syncFrameState test_flags
       (test_frame\<lparr>makeCurrent := False\<rparr>) test_task))))) (LostSurfaceRewardIfFound test_flags) \<and>
   has_flag (mSyncResult (fst (snd (snd (syncFrameState test_flags
       (test_frame\<lparr>makeCurrent := False\<rparr>) test_task))))) (FrameDropped test_flags)"
proof -
  have h: "independent_flags test_flags"
    by (simp add: independent_flags_def test_flags_def)
  from syncFrameState_surface_flags [OF h, of "test_frame\<lparr>hasSurface := False\<rparr>" test_task]
    syncFrameState_surface_flags [OF h, of "test_frame\<lparr>makeCurrent := False\<rparr>" test_task] h
  show ?thesis
    by (simp add: test_task_simps test_flags_simps test_frame_simps has_flag_def)
qed

section \<open>The calls of one frame\<close>

lemma sync_calls_no_release:
  "filter is_release_or_draw (snd (snd (snd (syncFrameState fl c t)))) = []"
  by (simp add: syncFrameState_calls is_release_or_draw_def filter_empty_conv image_iff)

lemma sync_calls_no_unblock:
  "count_list (snd (snd (snd (syncFrameState fl c t)))) UnblockUiThread = 0"
  by (simp add: syncFrameState_calls count_list_0_iff image_iff)

lemma reportWorkDurations_no_release:
  "filter is_release_or_draw (snd (reportWorkDurations c fd iv fs sd dq t)) = []"
  by (simp add: reportWorkDurations_def Let_def is_release_or_draw_def split: prod.splits)

lemma reportWorkDurations_no_unblock:
  "count_list (snd (reportWorkDurations c fd iv fs sd dq t)) UnblockUiThread = 0"
  by (simp add: reportWorkDurations_def Let_def split_beta)

lemma run_release_order:
  "filter is_release_or_draw (snd (run fl c t)) =
     (let d = (if out_canDrawThisFrame (fst (snd (syncFrameState fl c t)))
               then Draw else WaitOnFences)
      in if fst (syncFrameState fl c t) then [UnblockUiThread, d] else [d, UnblockUiThread])"
  by (simp add: run_def Let_def split_beta sync_calls_no_release reportWorkDurations_no_release
        split: option.split)
     (simp add: is_release_or_draw_def)

lemma run_unblock_once: "count_list (snd (run fl c t)) UnblockUiThread = 1"
  by (simp add: run_def Let_def split_beta sync_calls_no_unblock reportWorkDurations_no_unblock
        split: option.split)

text \<open>With a context and a render thread, \<open>drawFrame\<close> is the reset followed by \<open>run\<close>.\<close>

lemma drawFrame_eq:
  "mContext t \<noteq> None \<Longrightarrow> mRenderThread t \<noteq> None \<Longrightarrow>
   drawFrame fl c t =
     Inr (mSyncResult
            (fst (run fl c (t\<lparr>mSyncResult := OK fl, mSyncQueued := systemTime_drawFrame c\<rparr>))),
          fst (run fl c (t\<lparr>mSyncResult := OK fl, mSyncQueued := systemTime_drawFrame c\<rparr>)),
          snd (run fl c (t\<lparr>mSyncResult := OK fl, mSyncQueued := systemTime_drawFrame c\<rparr>)))"
  by (simp add: drawFrame_def postAndWait_def Let_def split_beta)

text \<open>
  Claim C1. Every \<open>drawFrame\<close> on a task that has its context and render thread returns,
  and among the calls it made \<open>unblockUiThread\<close> occurs exactly once. Projected on the
  release and the draw or fence wait, the calls are: the release, then the draw or fence
  wait, when \<open>syncFrameState\<close> returned true; the draw or fence wait, then the release,
  when it returned false.
\<close>

theorem drawFrame_unblocks_exactly_once:
  assumes "mContext t \<noteq> None" and "mRenderThread t \<noteq> None"
  shows "\<exists>r t' calls.
           drawFrame fl c t = Inr (r, t', calls) \<and>
           count_list calls UnblockUiThread = 1 \<and>
           filter is_release_or_draw calls =
             (let t0 = t\<lparr>mSyncResult := OK fl, mSyncQueued := systemTime_drawFrame c\<rparr>;
                  d = (if out_canDrawThisFrame (fst (snd (syncFrameState fl c t0)))
                       then Draw else WaitOnFences)
              in if fst (syncFrameState fl c t0)
                 then [UnblockUiThread, d] else [d, UnblockUiThread])"
proof -
  let ?t0 = "t\<lparr>mSyncResult := OK fl, mSyncQueued := systemTime_drawFrame c\<rparr>"
  have a: "drawFrame fl c t =
          Inr (mSyncResult (fst (run fl c ?t0)), fst (run fl c ?t0), snd (run fl c ?t0))"
    using assms by (rule drawFrame_eq)
  have b: "count_list (snd (run fl c ?t0)) UnblockUiThread = 1"
    by (rule run_unblock_once)
  note c = run_release_order [of fl c ?t0, unfolded Let_def]
  show ?thesis
    unfolding Let_def by (intro exI conjI) (rule a, rule b, rule c)
qed

theorem drawFrame_unblocks_exactly_once_witness:
  "mContext test_task \<noteq> None \<and> mRenderThread test_task \<noteq> None \<and>
   (\<exists>r t' calls.
      drawFrame test_flags test_frame test_task = Inr (r, t', calls) \<and>
      count_list calls UnblockUiThread = 1 \<and>
      filter is_release_or_draw calls = [UnblockUiThread, Draw])"
  using drawFrame_unblocks_exactly_once [of test_task test_flags test_frame]
  by (simp add: test_task_simps test_frame_simps syncFrameState_ret syncFrameState_info)

section \<open>Signed 64-bit arithmetic of the hint session\<close>

lemma sint_sdiv64_100: "sint (sdiv64 a 100) = sint a sdiv 100"
proof -
  have b: "- (2 ^ 63) \<le> sint a" "sint a < 2 ^ 63"
    using sint_ge [of a] sint_lt [of a] by simp_all
  have "- (2 ^ 63) \<le> sint a sdiv 100 \<and> sint a sdiv 100 < 2 ^ 63"
    using b by (auto simp add: signed_divide_int_def sgn_if)
  then show ?thesis
    by (simp add: sdiv64_def sint_sbintrunc' signed_take_bit_int_eq_self)
qed

lemma sint_std_min: "sint (std_min a b) = min (sint a) (sint b)"
  by (simp add: std_min_def min_def)

lemma sdiv64_example: "sdiv64 1162000000 100 = 11620000"
  by (simp add: sdiv64_def signed_divide_int_def)

section \<open>What run leaves behind and calls\<close>

lemma syncFrameState_keeps:
  "mFrameInfo (fst (snd (snd (syncFrameState fl c t)))) = mFrameInfo t"
  "mSyncQueued (fst (snd (snd (syncFrameState fl c t)))) = mSyncQueued t"
  "mFrameCompleteCallback (fst (snd (snd (syncFrameState fl c t)))) = mFrameCompleteCallback t"
  "mFrameCallback (fst (snd (snd (syncFrameState fl c t)))) = mFrameCallback t"
  "mUpdateTargetWorkDuration (fst (snd (snd (syncFrameState fl c t)))) = mUpdateTargetWorkDuration t"
  "mReportActualWorkDuration (fst (snd (snd (syncFrameState fl c t)))) = mReportActualWorkDuration t"
  "mLastTargetWorkDuration (fst (snd (snd (syncFrameState fl c t)))) = mLastTargetWorkDuration t"
  "mLastDequeueBufferDuration (fst (snd (snd (syncFrameState fl c t)))) = mLastDequeueBufferDuration t"
  "mContext (fst (snd (snd (syncFrameState fl c t)))) = mContext t"
  "mRenderThread (fst (snd (snd (syncFrameState fl c t)))) = mRenderThread t"
  "mTargetNode (fst (snd (snd (syncFrameState fl c t)))) = mTargetNode t"
  "mLayers (fst (snd (snd (syncFrameState fl c t)))) = []"
  by (simp_all add: syncFrameState_def Let_def)

lemma reportWorkDurations_keeps:
  "mSyncResult (fst (reportWorkDurations c fd iv fs sd dq t)) = mSyncResult t"
  "mLastDequeueBufferDuration (fst (reportWorkDurations c fd iv fs sd dq t)) = mLastDequeueBufferDuration t"
  "mUpdateTargetWorkDuration (fst (reportWorkDurations c fd iv fs sd dq t)) = mUpdateTargetWorkDuration t"
  "mReportActualWorkDuration (fst (reportWorkDurations c fd iv fs sd dq t)) = mReportActualWorkDuration t"
  by (simp_all add: reportWorkDurations_def Let_def split_beta)

lemma reportWorkDurations_target:
  "mLastTargetWorkDuration (fst (reportWorkDurations c fd iv fs sd dq t)) =
     (if mUpdateTargetWorkDuration t \<noteq> None \<and> mReportActualWorkDuration t \<noteq> None \<and>
         100000 < sint (sdiv64 ((fd - iv) * targetCpuTimePercentage c) 100) \<and>
         sint (sdiv64 ((fd - iv) * targetCpuTimePercentage c) 100) < 10000000000 \<and>
         sdiv64 ((fd - iv) * targetCpuTimePercentage c) 100 \<noteq> mLastTargetWorkDuration t
      then sdiv64 ((fd - iv) * targetCpuTimePercentage c) 100
      else mLastTargetWorkDuration t)"
  by (simp add: reportWorkDurations_def Let_def split_beta kSanityCheckLowerBound_def
        kSanityCheckUpperBound_def)

lemma reportWorkDurations_update_mem:
  "UpdateTargetWorkDuration v \<in> set (snd (reportWorkDurations c fd iv fs sd dq t)) \<longleftrightarrow>
     mUpdateTargetWorkDuration t \<noteq> None \<and> mReportActualWorkDuration t \<noteq> None \<and>
     v = sdiv64 ((fd - iv) * targetCpuTimePercentage c) 100 \<and>
     100000 < sint v \<and> sint v < 10000000000 \<and> v \<noteq> mLastTargetWorkDuration t"
  by (auto simp add: reportWorkDurations_def Let_def split_beta kSanityCheckLowerBound_def
        kSanityCheckUpperBound_def)

lemma reportWorkDurations_report_mem:
  "ReportActualWorkDuration v \<in> set (snd (reportWorkDurations c fd iv fs sd dq t)) \<longleftrightarrow>
     mUpdateTargetWorkDuration t \<noteq> None \<and> mReportActualWorkDuration t \<noteq> None \<and>
     v = systemTime_report c - fs - std_min sd (mLastDequeueBufferDuration t) - dq \<and>
     100000 < sint v \<and> sint v < 10000000000"
  by (auto simp add: reportWorkDurations_def Let_def split_beta kSanityCheckLowerBound_def
        kSanityCheckUpperBound_def)

lemma reportWorkDurations_no_draw:
  "Draw \<notin> set (snd (reportWorkDurations c fd iv fs sd dq t))"
  "WaitOnFences \<notin> set (snd (reportWorkDurations c fd iv fs sd dq t))"
  by (simp_all add: reportWorkDurations_def Let_def split_beta)

lemma sync_calls_mem:
  "UpdateTargetWorkDuration v \<notin> set (snd (snd (snd (syncFrameState fl c t))))"
  "ReportActualWorkDuration v \<notin> set (snd (snd (snd (syncFrameState fl c t))))"
  "Draw \<notin> set (snd (snd (snd (syncFrameState fl c t))))"
  "WaitOnFences \<notin> set (snd (snd (snd (syncFrameState fl c t))))"
  by (auto simp add: syncFrameState_calls)

lemma run_update_mem:
  "UpdateTargetWorkDuration v \<in> set (snd (run fl c t)) \<longleftrightarrow>
     mUpdateTargetWorkDuration t \<noteq> None \<and> mReportActualWorkDuration t \<noteq> None \<and>
     v = sdiv64 ((mFrameInfo t FrameDeadline - mFrameInfo t IntendedVsync)
                   * targetCpuTimePercentage c) 100 \<and>
     100000 < sint v \<and> sint v < 10000000000 \<and> v \<noteq> mLastTargetWorkDuration t"
  by (simp add: run_def Let_def split_beta sync_calls_mem reportWorkDurations_update_mem
        syncFrameState_keeps split: option.split)

lemma run_report_mem:
  "ReportActualWorkDuration v \<in> set (snd (run fl c t)) \<longleftrightarrow>
     mUpdateTargetWorkDuration t \<noteq> None \<and> mReportActualWorkDuration t \<noteq> None \<and>
     v = systemTime_report c - mFrameInfo t FrameStartTime
           - std_min (systemTime_run c - mSyncQueued t) (mLastDequeueBufferDuration t)
           - (if out_canDrawThisFrame (fst (snd (syncFrameState fl c t))) then draw c else 0) \<and>
     100000 < sint v \<and> sint v < 10000000000"
  by (simp add: run_def Let_def split_beta sync_calls_mem reportWorkDurations_report_mem
        syncFrameState_keeps split: option.split)

lemma run_mLastTargetWorkDuration:
  "mLastTargetWorkDuration (fst (run fl c t)) =
     (if mUpdateTargetWorkDuration t \<noteq> None \<and> mReportActualWorkDuration t \<noteq> None \<and>
         100000 < sint (sdiv64 ((mFrameInfo t FrameDeadline - mFrameInfo t IntendedVsync)
                                  * targetCpuTimePercentage c) 100) \<and>
         sint (sdiv64 ((mFrameInfo t FrameDeadline - mFrameInfo t IntendedVsync)
                         * targetCpuTimePercentage c) 100) < 10000000000 \<and>
         sdiv64 ((mFrameInfo t FrameDeadline - mFrameInfo t IntendedVsync)
                   * targetCpuTimePercentage c) 100 \<noteq> mLastTargetWorkDuration t
      then sdiv64 ((mFrameInfo t FrameDeadline - mFrameInfo t IntendedVsync)
                     * targetCpuTimePercentage c) 100
      else mLastTargetWorkDuration t)"
  by (auto simp add: run_def Let_def split_beta reportWorkDurations_target
        syncFrameState_keeps split: option.split)

lemma run_mLastDequeueBufferDuration:
  "mLastDequeueBufferDuration (fst (run fl c t)) =
     (if out_canDrawThisFrame (fst (snd (syncFrameState fl c t))) then draw c else 0)"
  by (simp add: run_def Let_def split_beta)

lemma run_mSyncResult:
  "mSyncResult (fst (run fl c t)) = mSyncResult (fst (snd (snd (syncFrameState fl c t))))"
  by (simp add: run_def Let_def split_beta reportWorkDurations_keeps split: option.split)

lemma run_keeps_callbacks:
  "mUpdateTargetWorkDuration (fst (run fl c t)) = mUpdateTargetWorkDuration t"
  "mReportActualWorkDuration (fst (run fl c t)) = mReportActualWorkDuration t"
  by (simp_all add: run_def Let_def split_beta reportWorkDurations_keeps syncFrameState_keeps
        split: option.split)

lemma run_draw_mem:
  "Draw \<in> set (snd (run fl c t)) \<longleftrightarrow> out_canDrawThisFrame (fst (snd (syncFrameState fl c t)))"
  "WaitOnFences \<in> set (snd (run fl c t)) \<longleftrightarrow> \<not> out_canDrawThisFrame (fst (snd (syncFrameState fl c t)))"
  by (simp_all add: run_def Let_def split_beta sync_calls_mem reportWorkDurations_no_draw
        split: option.split)

lemma run_keeps_frame:
  "mFrameInfo (fst (run fl c t)) = mFrameInfo t"
  "mSyncQueued (fst (run fl c t)) = mSyncQueued t"
  "mContext (fst (run fl c t)) = mContext t"
  "mRenderThread (fst (run fl c t)) = mRenderThread t"
  by (simp_all add: run_def Let_def split_beta reportWorkDurations_def syncFrameState_keeps
        split: option.split)

text \<open>
  Claim C3. With both hint-session callbacks installed, \<open>run\<close> computes the target as
  \<open>(frameDeadline - intendedVsync) * targetCpuTimePercentage / 100\<close> in 64-bit arithmetic
  with truncating division, and calls \<open>updateTargetWorkDuration\<close> with a value exactly when
  that value is the target, the target is above 100000 and below 10000000000, and it is
  not \<open>mLastTargetWorkDuration\<close>. \<open>mLastTargetWorkDuration\<close> becomes the target when the
  callback is called and keeps its value otherwise, so it changes exactly when the callback
  is called.
\<close>

theorem hint_target_forwarded_iff:
  assumes "mUpdateTargetWorkDuration t \<noteq> None" and "mReportActualWorkDuration t \<noteq> None"
  shows "let target = sdiv64 ((mFrameInfo t FrameDeadline - mFrameInfo t IntendedVsync)
                                * targetCpuTimePercentage c) 100;
             fires = (100000 < sint target \<and> sint target < 10000000000 \<and>
                      target \<noteq> mLastTargetWorkDuration t)
         in sint target =
              sint ((mFrameInfo t FrameDeadline - mFrameInfo t IntendedVsync)
                      * targetCpuTimePercentage c) sdiv 100 \<and>
            (UpdateTargetWorkDuration v \<in> set (snd (run fl c t)) \<longleftrightarrow> v = target \<and> fires) \<and>
            mLastTargetWorkDuration (fst (run fl c t)) =
              (if fires then target else mLastTargetWorkDuration t) \<and>
            (mLastTargetWorkDuration (fst (run fl c t)) \<noteq> mLastTargetWorkDuration t
               \<longleftrightarrow> UpdateTargetWorkDuration target \<in> set (snd (run fl c t)))"
  using assms
  by (auto simp add: Let_def run_update_mem run_mLastTargetWorkDuration sint_sdiv64_100)

theorem hint_target_forwarded_iff_witness:
  "mUpdateTargetWorkDuration test_task \<noteq> None \<and> mReportActualWorkDuration test_task \<noteq> None \<and>
   UpdateTargetWorkDuration 11620000 \<in> set (snd (run test_flags test_frame test_task)) \<and>
   mLastTargetWorkDuration (fst (run test_flags test_frame test_task)) = 11620000 \<and>
   UpdateTargetWorkDuration 11620000
     \<notin> set (snd (run test_flags test_frame (fst (run test_flags test_frame test_task)))) \<and>
   mLastTargetWorkDuration
     (fst (run test_flags test_frame (fst (run test_flags test_frame test_task)))) = 11620000"
proof -
  have a: "mUpdateTargetWorkDuration test_task \<noteq> None"
    and b: "mReportActualWorkDuration test_task \<noteq> None"
    by (simp_all add: test_task_simps)
  have a2: "mUpdateTargetWorkDuration (fst (run test_flags test_frame test_task)) \<noteq> None"
    and b2: "mReportActualWorkDuration (fst (run test_flags test_frame test_task)) \<noteq> None"
    by (simp_all add: run_keeps_callbacks test_task_simps)
  note first = hint_target_forwarded_iff [OF a b, of test_frame 11620000 test_flags]
  note second = hint_target_forwarded_iff [OF a2 b2, of test_frame 11620000 test_flags]
  have first': "UpdateTargetWorkDuration 11620000 \<in> set (snd (run test_flags test_frame test_task)) \<and>
    mLastTargetWorkDuration (fst (run test_flags test_frame test_task)) = 11620000"
    using first by (simp add: test_task_simps test_frame_simps sdiv64_example Let_def)
  with second a b show ?thesis
    by (simp add: test_task_simps test_frame_simps sdiv64_example Let_def run_keeps_frame)
qed

text \<open>
  Claim C4. With both hint-session callbacks installed, the actual duration is
  \<open>(now - frameStartTime) - min(queuing delay, mLastDequeueBufferDuration) - \<close> this frame's
  dequeue-buffer duration, where the minimum is the signed one and
  \<open>mLastDequeueBufferDuration\<close> still holds the previous frame's value;
  \<open>reportActualWorkDuration\<close> is called with a value exactly when that value is the actual
  duration and lies above 100000 and below 10000000000. Nothing else is done with a value
  out of these bounds.
\<close>

theorem hint_actual_forwarded_iff:
  assumes "mUpdateTargetWorkDuration t \<noteq> None" and "mReportActualWorkDuration t \<noteq> None"
  shows "let queuingDelay = systemTime_run c - mSyncQueued t;
             dequeueBufferDuration =
               (if out_canDrawThisFrame (fst (snd (syncFrameState fl c t))) then draw c else 0);
             actual = (systemTime_report c - mFrameInfo t FrameStartTime)
                      - std_min queuingDelay (mLastDequeueBufferDuration t)
                      - dequeueBufferDuration
         in sint (std_min queuingDelay (mLastDequeueBufferDuration t)) =
              min (sint queuingDelay) (sint (mLastDequeueBufferDuration t)) \<and>
            (ReportActualWorkDuration v \<in> set (snd (run fl c t)) \<longleftrightarrow>
               v = actual \<and> 100000 < sint actual \<and> sint actual < 10000000000)"
  using assms
  by (auto simp add: Let_def run_report_mem sint_std_min)

theorem hint_actual_forwarded_iff_witness:
  "mUpdateTargetWorkDuration test_task \<noteq> None \<and> mReportActualWorkDuration test_task \<noteq> None \<and>
   ReportActualWorkDuration 8700000 \<in> set (snd (run test_flags test_frame test_task)) \<and>
   ReportActualWorkDuration 50000
     \<notin> set (snd (run test_flags (test_frame\<lparr>systemTime_report := 350000\<rparr>) test_task))"
  using hint_actual_forwarded_iff [of test_task test_frame test_flags 8700000]
    hint_actual_forwarded_iff [of test_task "test_frame\<lparr>systemTime_report := 350000\<rparr>" test_flags 50000]
  by (simp add: test_task_simps test_frame_simps Let_def syncFrameState_info std_min_def)

text \<open>
  Claim C5. When \<open>info.out.canDrawThisFrame\<close> is false after the sync, \<open>run\<close> does not call
  \<open>draw\<close>, it calls \<open>waitOnFences\<close>, this frame's dequeue-buffer duration is zero in its own
  report, and \<open>mLastDequeueBufferDuration\<close> is zero afterwards. A following frame that starts
  from a task with that value (whatever the producer changed in between) therefore
  computes its actual duration with zero as the previous dequeue-buffer duration.
\<close>

theorem skipped_frame_waits_on_fences:
  assumes "\<not> out_canDrawThisFrame (fst (snd (syncFrameState fl c t)))"
  shows "Draw \<notin> set (snd (run fl c t)) \<and>
         WaitOnFences \<in> set (snd (run fl c t)) \<and>
         mLastDequeueBufferDuration (fst (run fl c t)) = 0 \<and>
         (ReportActualWorkDuration v \<in> set (snd (run fl c t)) \<longrightarrow>
            v = (systemTime_report c - mFrameInfo t FrameStartTime)
                - std_min (systemTime_run c - mSyncQueued t) (mLastDequeueBufferDuration t) - 0) \<and>
         (mLastDequeueBufferDuration t2 = mLastDequeueBufferDuration (fst (run fl c t)) \<and>
          mUpdateTargetWorkDuration t2 \<noteq> None \<and> mReportActualWorkDuration t2 \<noteq> None \<longrightarrow>
            (let dequeueBufferDuration2 =
                   (if out_canDrawThisFrame (fst (snd (syncFrameState fl c2 t2)))
                    then draw c2 else 0);
                 actual2 = (systemTime_report c2 - mFrameInfo t2 FrameStartTime)
                           - std_min (systemTime_run c2 - mSyncQueued t2) 0
                           - dequeueBufferDuration2
             in ReportActualWorkDuration w \<in> set (snd (run fl c2 t2)) \<longleftrightarrow>
                  w = actual2 \<and> 100000 < sint actual2 \<and> sint actual2 < 10000000000))"
  using assms
  by (auto simp add: Let_def run_draw_mem run_mLastDequeueBufferDuration run_report_mem)

theorem skipped_frame_waits_on_fences_witness:
  "\<not> out_canDrawThisFrame
       (fst (snd (syncFrameState test_flags (test_frame\<lparr>hasSurface := False\<rparr>)
                    (test_task\<lparr>mLastDequeueBufferDuration := 400000\<rparr>)))) \<and>
   Draw \<notin> set (snd (run test_flags (test_frame\<lparr>hasSurface := False\<rparr>)
                       (test_task\<lparr>mLastDequeueBufferDuration := 400000\<rparr>))) \<and>
   WaitOnFences \<in> set (snd (run test_flags (test_frame\<lparr>hasSurface := False\<rparr>)
                       (test_task\<lparr>mLastDequeueBufferDuration := 400000\<rparr>))) \<and>
   mLastDequeueBufferDuration
     (fst (run test_flags (test_frame\<lparr>hasSurface := False\<rparr>)
             (test_task\<lparr>mLastDequeueBufferDuration := 400000\<rparr>))) = 0 \<and>
   ReportActualWorkDuration 8700000
     \<in> set (snd (run test_flags test_frame
                   (fst (run test_flags (test_frame\<lparr>hasSurface := False\<rparr>)
                           (test_task\<lparr>mLastDequeueBufferDuration := 400000\<rparr>)))))"
proof -
  let ?c = "test_frame\<lparr>hasSurface := False\<rparr>"
  let ?t = "test_task\<lparr>mLastDequeueBufferDuration := 400000\<rparr>"
  have h: "\<not> out_canDrawThisFrame (fst (snd (syncFrameState test_flags ?c ?t)))"
    by (simp add: syncFrameState_info)
  from skipped_frame_waits_on_fences [OF h, of 0 "fst (run test_flags ?c ?t)" test_frame 8700000] h
  show ?thesis
    by (simp add: Let_def run_keeps_callbacks run_keeps_frame test_task_simps test_frame_simps
          syncFrameState_info std_min_def)
qed

text \<open>
  Claim C10. After \<open>run\<close>, \<open>mLastDequeueBufferDuration\<close> is what \<open>draw\<close> returned when the
  frame was drawn (and \<open>draw\<close> is called exactly then), and zero when it was skipped. The
  value does not depend on which hint-session callbacks are installed.
\<close>

theorem run_persists_dequeue_duration:
  "mLastDequeueBufferDuration (fst (run fl c t)) =
     (if out_canDrawThisFrame (fst (snd (syncFrameState fl c t))) then draw c else 0) \<and>
   (Draw \<in> set (snd (run fl c t)) \<longleftrightarrow> out_canDrawThisFrame (fst (snd (syncFrameState fl c t)))) \<and>
   mLastDequeueBufferDuration (fst (run fl c (setHintSessionCallbacks u r t))) =
     mLastDequeueBufferDuration (fst (run fl c t))"
  by (simp add: run_mLastDequeueBufferDuration run_draw_mem syncFrameState_info)

theorem run_persists_dequeue_duration_witness:
  "mLastDequeueBufferDuration (fst (run test_flags test_frame test_task)) = 300000 \<and>
   mLastDequeueBufferDuration
     (fst (run test_flags test_frame (setHintSessionCallbacks None None test_task))) = 300000 \<and>
   mLastDequeueBufferDuration
     (fst (run test_flags (test_frame\<lparr>hasSurface := False\<rparr>)
        (setHintSessionCallbacks None None test_task))) = 0"
  using run_persists_dequeue_duration [of test_flags test_frame test_task None None]
    run_persists_dequeue_duration [of test_flags "test_frame\<lparr>hasSurface := False\<rparr>"
      "setHintSessionCallbacks None None test_task" None None]
  by (simp add: test_frame_simps syncFrameState_info)

section \<open>The bitmask drawFrame returns\<close>

lemma has_flag_self: "has_flag f f"
  by (simp add: has_flag_def)

lemma drawFrame_result:
  assumes "mContext t \<noteq> None" and "mRenderThread t \<noteq> None"
  shows "\<exists>t' calls.
           drawFrame fl c t =
             Inr (mSyncResult (fst (snd (snd (syncFrameState fl c
                    (t\<lparr>mSyncResult := OK fl, mSyncQueued := systemTime_drawFrame c\<rparr>))))),
                  t', calls)"
  using assms by (simp add: drawFrame_eq run_mSyncResult)

text \<open>
  Claim C9. \<open>drawFrame\<close> sets \<open>mSyncResult\<close> to \<open>OK\<close> before the sync pass, so the bitmask it
  returns is the one that \<open>syncFrameState\<close> builds from \<open>OK\<close>, whatever the task held
  before; it contains \<open>UIRedrawRequired\<close> exactly when \<open>prepareTree\<close> reported both
  \<open>hasAnimations\<close> and \<open>requiresUiRedraw\<close>.
\<close>

theorem drawFrame_UIRedrawRequired_iff:
  assumes "independent_flags fl" and "mContext t \<noteq> None" and "mRenderThread t \<noteq> None"
  shows "\<exists>r t' calls.
           drawFrame fl c t = Inr (r, t', calls) \<and>
           r = mSyncResult (fst (snd (snd (syncFrameState fl c
                 (t\<lparr>mSyncResult := OK fl, mSyncQueued := systemTime_drawFrame c\<rparr>))))) \<and>
           (has_flag r (UIRedrawRequired fl) \<longleftrightarrow>
              out_hasAnimations (prepareTree c) \<and> out_requiresUiRedraw (prepareTree c))"
proof -
  let ?t0 = "t\<lparr>mSyncResult := OK fl, mSyncQueued := systemTime_drawFrame c\<rparr>"
  let ?r = "mSyncResult (fst (snd (snd (syncFrameState fl c ?t0))))"
  from drawFrame_result [OF assms(2,3), of fl c] obtain t' calls
    where d: "drawFrame fl c t = Inr (?r, t', calls)" by blast
  have "has_flag ?r (UIRedrawRequired fl) \<longleftrightarrow>
          out_hasAnimations (prepareTree c) \<and> out_requiresUiRedraw (prepareTree c)"
    using independent_flags_disjoint [OF assms(1)] independent_flags_nonzero [OF assms(1)]
    by (simp add: syncFrameState_mSyncResult Let_def has_flag_set has_flag_other
          has_flag_zero has_flag_disjoint has_flag_self)
  with d show ?thesis by blast
qed

theorem drawFrame_UIRedrawRequired_iff_witness:
  "independent_flags test_flags \<and> mContext test_task \<noteq> None \<and> mRenderThread test_task \<noteq> None \<and>
   (\<exists>r t' calls.
      drawFrame test_flags test_frame (test_task\<lparr>mSyncResult := 1\<rparr>) = Inr (r, t', calls) \<and>
      \<not> has_flag r (UIRedrawRequired test_flags)) \<and>
   (\<exists>r t' calls.
      drawFrame test_flags
        (test_frame\<lparr>prepareTree := test_info\<lparr>out_hasAnimations := True,
                                                  out_requiresUiRedraw := True\<rparr>\<rparr>)
        test_task = Inr (r, t', calls) \<and>
      has_flag r (UIRedrawRequired test_flags))"
proof -
  have h: "independent_flags test_flags"
    by (simp add: independent_flags_def test_flags_def)
  have c: "mContext (test_task\<lparr>mSyncResult := 1\<rparr>) \<noteq> None"
    "mRenderThread (test_task\<lparr>mSyncResult := 1\<rparr>) \<noteq> None"
    "mContext test_task \<noteq> None" "mRenderThread test_task \<noteq> None"
    by (simp_all add: test_task_simps)
  from drawFrame_UIRedrawRequired_iff [OF h c(1,2), of test_frame]
    drawFrame_UIRedrawRequired_iff [OF h c(3,4), of "test_frame\<lparr>prepareTree := test_info\<lparr>out_hasAnimations := True,
                                                  out_requiresUiRedraw := True\<rparr>\<rparr>"]
    h c
  show ?thesis
    by (simp add: test_frame_simps) blast
qed

section \<open>Texture-cache pressure\<close>

lemma syncFrameState_task_ignores_prepareTextures:
  "fst (snd (snd (syncFrameState fl (c\<lparr>prepareTree := (prepareTree c)\<lparr>prepareTextures := b\<rparr>\<rparr>) t)))
     = fst (snd (snd (syncFrameState fl c t)))"
  by (simp add: syncFrameState_def Let_def)

lemma syncFrameState_draw_ignores_prepareTextures:
  "out_canDrawThisFrame
     (fst (snd (syncFrameState fl (c\<lparr>prepareTree := (prepareTree c)\<lparr>prepareTextures := b\<rparr>\<rparr>) t)))
     = out_canDrawThisFrame (fst (snd (syncFrameState fl c t)))"
  by (simp add: syncFrameState_info)

lemma reportWorkDurations_ignores_prepareTree:
  "reportWorkDurations (c\<lparr>prepareTree := p\<rparr>) fd iv fs sd dq t
     = reportWorkDurations c fd iv fs sd dq t"
  by (simp add: reportWorkDurations_def)

lemma run_state_ignores_prepareTextures:
  "fst (run fl (c\<lparr>prepareTree := (prepareTree c)\<lparr>prepareTextures := b\<rparr>\<rparr>) t) = fst (run fl c t)"
  unfolding run_def Let_def split_beta syncFrameState_task_ignores_prepareTextures
    syncFrameState_draw_ignores_prepareTextures reportWorkDurations_ignores_prepareTree
  by simp

lemma run_calls_ignore_prepareTextures:
  "filter (\<lambda>e. e \<noteq> UnblockUiThread)
     (snd (run fl (c\<lparr>prepareTree := (prepareTree c)\<lparr>prepareTextures := b\<rparr>\<rparr>) t))
   = filter (\<lambda>e. e \<noteq> UnblockUiThread) (snd (run fl c t))"
  unfolding run_def Let_def split_beta syncFrameState_task_ignores_prepareTextures
    syncFrameState_draw_ignores_prepareTextures reportWorkDurations_ignores_prepareTree
  by (simp add: syncFrameState_calls split: option.split)

lemma drawFrame_ignores_prepareTextures:
  "map_sum id (\<lambda>res. (fst res, fst (snd res)))
     (drawFrame fl (c\<lparr>prepareTree := (prepareTree c)\<lparr>prepareTextures := b\<rparr>\<rparr>) t)
   = map_sum id (\<lambda>res. (fst res, fst (snd res))) (drawFrame fl c t)"
  by (simp add: drawFrame_def postAndWait_def Let_def split_beta
        run_state_ignores_prepareTextures)

text \<open>
  Claim C7 as stated fails. With a texture cache that lacks room (\<open>prepareTextures\<close> false)
  and everything else in order, \<open>syncFrameState\<close> returns false, but \<open>drawFrame\<close> returns
  \<open>OK\<close>, which contains none of the four flags: no flag reports the condition. The task
  after the frame is the same as after the frame with room, so nothing is carried forward,
  and the current frame is what differs: the producer is released after the draw instead
  of before it.
\<close>

theorem texture_pressure_no_flag_counterexample:
  "\<not> fst (syncFrameState test_flags
            (test_frame\<lparr>prepareTree := test_info\<lparr>prepareTextures := False\<rparr>\<rparr>) test_task) \<and>
   drawFrame test_flags (test_frame\<lparr>prepareTree := test_info\<lparr>prepareTextures := False\<rparr>\<rparr>)
       test_task =
     Inr (OK test_flags,
          test_task\<lparr>mSyncQueued := 1000000, mLastTargetWorkDuration := 11620000,
                    mLastDequeueBufferDuration := 300000\<rparr>,
          [VsyncReceived 0 0 0 16600000 0, MakeCurrent, UnpinImages, SetContentDrawBounds,
           PrepareTree, Draw, UnblockUiThread, UpdateTargetWorkDuration 11620000,
           ReportActualWorkDuration 8700000]) \<and>
   drawFrame test_flags test_frame test_task =
     Inr (OK test_flags,
          test_task\<lparr>mSyncQueued := 1000000, mLastTargetWorkDuration := 11620000,
                    mLastDequeueBufferDuration := 300000\<rparr>,
          [VsyncReceived 0 0 0 16600000 0, MakeCurrent, UnpinImages, SetContentDrawBounds,
           PrepareTree, UnblockUiThread, Draw, UpdateTargetWorkDuration 11620000,
           ReportActualWorkDuration 8700000]) \<and>
   \<not> has_flag (OK test_flags) (UIRedrawRequired test_flags) \<and>
   \<not> has_flag (OK test_flags) (LostSurfaceRewardIfFound test_flags) \<and>
   \<not> has_flag (OK test_flags) (ContextIsStopped test_flags) \<and>
   \<not> has_flag (OK test_flags) (FrameDropped test_flags)"
  by (simp add: drawFrame_def postAndWait_def run_def syncFrameState_def
        reportWorkDurations_def Let_def split_beta test_task_def test_frame_def test_info_def
        test_flags_def test_raw_def setContext_def setHintSessionCallbacks_def
        DrawFrameTask_ctor_def sdiv64_example std_min_def kSanityCheckLowerBound_def
        kSanityCheckUpperBound_def has_flag_def)

text \<open>
  Claim C7, amended. When the texture cache lacks room, \<open>syncFrameState\<close> returns false.
  No Sync Result flag reports it and no member keeps it: the bitmask after the sync, the
  bitmask and the task that \<open>drawFrame\<close> returns, and the task after \<open>run\<close> are the same as
  when the cache has room. The return value decides the handling of the current frame and
  nothing else: the producer is released only after the draw or fence wait, where with
  room it is released before, and apart from the place of the release the calls of the
  frame are the same. Here \<open>low\<close> is the frame \<open>c\<close> with the cache lacking room (it is \<open>c\<close>
  itself when \<open>c\<close> lacks room) and \<open>room\<close> is the same frame with room.
\<close>

theorem texture_pressure_delays_release:
  "let low = c\<lparr>prepareTree := (prepareTree c)\<lparr>prepareTextures := False\<rparr>\<rparr>;
       room = c\<lparr>prepareTree := (prepareTree c)\<lparr>prepareTextures := True\<rparr>\<rparr>;
       d = (if out_canDrawThisFrame (fst (snd (syncFrameState fl low t)))
            then Draw else WaitOnFences)
   in (\<not> prepareTextures (prepareTree c) \<longrightarrow> low = c) \<and>
      \<not> fst (syncFrameState fl low t) \<and> fst (syncFrameState fl room t) \<and>
      mSyncResult (fst (snd (snd (syncFrameState fl low t))))
        = mSyncResult (fst (snd (snd (syncFrameState fl room t)))) \<and>
      fst (run fl low t) = fst (run fl room t) \<and>
      map_sum id fst (drawFrame fl low t) = map_sum id fst (drawFrame fl room t) \<and>
      map_sum id (\<lambda>res. (fst res, fst (snd res))) (drawFrame fl low t)
        = map_sum id (\<lambda>res. (fst res, fst (snd res))) (drawFrame fl room t) \<and>
      filter is_release_or_draw (snd (run fl low t)) = [d, UnblockUiThread] \<and>
      filter is_release_or_draw (snd (run fl room t)) = [UnblockUiThread, d] \<and>
      filter (\<lambda>e. e \<noteq> UnblockUiThread) (snd (run fl low t))
        = filter (\<lambda>e. e \<noteq> UnblockUiThread) (snd (run fl room t))"
proof -
  let ?low = "c\<lparr>prepareTree := (prepareTree c)\<lparr>prepareTextures := False\<rparr>\<rparr>"
  let ?room = "c\<lparr>prepareTree := (prepareTree c)\<lparr>prepareTextures := True\<rparr>\<rparr>"
  have self: "\<not> prepareTextures (prepareTree c) \<longrightarrow> ?low = c"
    by simp
  have ret: "\<not> fst (syncFrameState fl ?low t)" "fst (syncFrameState fl ?room t)"
    by (simp_all add: syncFrameState_ret)
  have mask: "mSyncResult (fst (snd (snd (syncFrameState fl ?low t))))
                = mSyncResult (fst (snd (snd (syncFrameState fl ?room t))))"
    by (simp add: syncFrameState_task_ignores_prepareTextures)
  have state: "fst (run fl ?low t) = fst (run fl ?room t)"
    by (simp add: run_state_ignores_prepareTextures)
  have res: "map_sum id (\<lambda>res. (fst res, fst (snd res))) (drawFrame fl ?low t)
               = map_sum id (\<lambda>res. (fst res, fst (snd res))) (drawFrame fl ?room t)"
    by (simp add: drawFrame_ignores_prepareTextures)
  have res1: "map_sum id fst (drawFrame fl ?low t) = map_sum id fst (drawFrame fl ?room t)"
    by (simp add: drawFrame_def postAndWait_def split_beta run_state_ignores_prepareTextures)
  have order:
    "filter is_release_or_draw (snd (run fl ?low t)) =
       [if out_canDrawThisFrame (fst (snd (syncFrameState fl ?low t))) then Draw
        else WaitOnFences, UnblockUiThread]"
    "filter is_release_or_draw (snd (run fl ?room t)) =
       [UnblockUiThread, if out_canDrawThisFrame (fst (snd (syncFrameState fl ?low t)))
                         then Draw else WaitOnFences]"
    by (simp_all add: run_release_order Let_def syncFrameState_ret syncFrameState_info)
  have rest: "filter (\<lambda>e. e \<noteq> UnblockUiThread) (snd (run fl ?low t))
                = filter (\<lambda>e. e \<noteq> UnblockUiThread) (snd (run fl ?room t))"
    by (simp add: run_calls_ignore_prepareTextures)
  from self ret mask state res res1 order rest show ?thesis
    unfolding Let_def by (intro conjI)
qed

theorem texture_pressure_delays_release_witness:
  "\<not> prepareTextures
       (prepareTree (test_frame\<lparr>prepareTree := test_info\<lparr>prepareTextures := False\<rparr>\<rparr>)) \<and>
   \<not> fst (syncFrameState test_flags
            (test_frame\<lparr>prepareTree := test_info\<lparr>prepareTextures := False\<rparr>\<rparr>) test_task) \<and>
   filter is_release_or_draw
     (snd (run test_flags
             (test_frame\<lparr>prepareTree := test_info\<lparr>prepareTextures := False\<rparr>\<rparr>)
             test_task)) = [Draw, UnblockUiThread] \<and>
   filter is_release_or_draw (snd (run test_flags test_frame test_task))
     = [UnblockUiThread, Draw] \<and>
   fst (run test_flags
          (test_frame\<lparr>prepareTree := test_info\<lparr>prepareTextures := False\<rparr>\<rparr>) test_task)
     = fst (run test_flags test_frame test_task) \<and>
   map_sum id fst
     (drawFrame test_flags
        (test_frame\<lparr>prepareTree := test_info\<lparr>prepareTextures := False\<rparr>\<rparr>) test_task)
     = map_sum id fst (drawFrame test_flags test_frame test_task)"
proof -
  let ?c = "test_frame\<lparr>prepareTree := test_info\<lparr>prepareTextures := False\<rparr>\<rparr>"
  have h: "\<not> prepareTextures (prepareTree ?c)" by simp
  have room: "?c\<lparr>prepareTree := (prepareTree ?c)\<lparr>prepareTextures := True\<rparr>\<rparr> = test_frame"
    by (simp add: test_frame_def test_info_def)
  have low: "?c\<lparr>prepareTree := (prepareTree ?c)\<lparr>prepareTextures := False\<rparr>\<rparr> = ?c"
    by simp
  have d: "out_canDrawThisFrame (fst (snd (syncFrameState test_flags ?c test_task)))"
    by (simp add: syncFrameState_info test_frame_simps test_info_def)
  from texture_pressure_delays_release [of ?c test_flags test_task] h show ?thesis
    unfolding Let_def room low using d by simp
qed

section \<open>Calls without a context\<close>

text \<open>
  Claim C8 as stated fails for \<open>removeLayerUpdate\<close>, which has no context check: on a
  freshly constructed task it returns normally, and on a task whose context was reset to
  null while a handle was queued it returns normally and erases the handle.
\<close>

theorem removeLayerUpdate_without_context_counterexample:
  "mContext (DrawFrameTask_ctor test_flags test_raw) = None \<and>
   removeLayerUpdate 7 (DrawFrameTask_ctor test_flags test_raw)
     = Inr (DrawFrameTask_ctor test_flags test_raw) \<and>
   mContext (setContext None None None (test_task\<lparr>mLayers := [7]\<rparr>)) = None \<and>
   removeLayerUpdate 7 (setContext None None None (test_task\<lparr>mLayers := [7]\<rparr>))
     = Inr (setContext None None None (test_task\<lparr>mLayers := []\<rparr>))"
  by (simp add: removeLayerUpdate_eq DrawFrameTask_ctor_def setContext_def)

text \<open>
  Claim C8, amended. Without a context, \<open>pushLayerUpdate\<close> and \<open>drawFrame\<close> abort through
  \<open>LOG_ALWAYS_FATAL_IF\<close>, which is their first statement: they produce no successor state
  and make no call. \<open>removeLayerUpdate\<close> does not look at the context: with or without one
  it never aborts and erases the first occurrence of the handle.
\<close>

theorem missing_context_fatal_for_push_and_draw:
  "(mContext t = None \<longrightarrow>
      pushLayerUpdate h t =
        Inl (LOG_ALWAYS_FATAL
               ''Lifecycle violation, there's no context to pushLayerUpdate with!'') \<and>
      drawFrame fl c t = Inl (LOG_ALWAYS_FATAL ''Cannot drawFrame with no CanvasContext!'')) \<and>
   removeLayerUpdate h t = Inr (t\<lparr>mLayers := remove1 h (mLayers t)\<rparr>)"
  by (simp add: pushLayerUpdate_def drawFrame_def removeLayerUpdate_eq)

theorem missing_context_fatal_for_push_and_draw_witness:
  "mContext (setContext None None None (test_task\<lparr>mLayers := [7]\<rparr>)) = None \<and>
   pushLayerUpdate 9 (setContext None None None (test_task\<lparr>mLayers := [7]\<rparr>)) =
     Inl (LOG_ALWAYS_FATAL ''Lifecycle violation, there's no context to pushLayerUpdate with!'') \<and>
   drawFrame test_flags test_frame (setContext None None None (test_task\<lparr>mLayers := [7]\<rparr>)) =
     Inl (LOG_ALWAYS_FATAL ''Cannot drawFrame with no CanvasContext!'') \<and>
   removeLayerUpdate 7 (setContext None None None (test_task\<lparr>mLayers := [7]\<rparr>)) =
     Inr (setContext None None None (test_task\<lparr>mLayers := []\<rparr>)) \<and>
   mContext (test_task\<lparr>mLayers := [7]\<rparr>) = Some 2 \<and>
   removeLayerUpdate 7 (test_task\<lparr>mLayers := [7]\<rparr>) = Inr (test_task\<lparr>mLayers := []\<rparr>)"
proof -
  have h: "mContext (setContext None None None (test_task\<lparr>mLayers := [7]\<rparr>)) = None"
    by (simp add: setContext_def)
  from missing_context_fatal_for_push_and_draw [of "setContext None None None (test_task\<lparr>mLayers := [7]\<rparr>)" 9
         test_flags test_frame]
    missing_context_fatal_for_push_and_draw [of "setContext None None None (test_task\<lparr>mLayers := [7]\<rparr>)" 7
         test_flags test_frame]
    missing_context_fatal_for_push_and_draw [of "test_task\<lparr>mLayers := [7]\<rparr>" 7 test_flags test_frame] h
  show ?thesis by (simp add: setContext_def test_task_simps)
qed

end
